theory Spec2Isabelle
  imports Main
begin

section \<open>The scoring core of the dynamic ambulance priority system\<close>

text \<open>
  A shallow embedding of the scoring functions of \<^verbatim>\<open>src/ambulance/dynamic_ai.py\<close>.
  Python integers are unbounded, so every numeric input and result is an \<^typ>\<open>int\<close>.
  Labels are Python strings, modelled as \<^typ>\<open>string\<close>. A dictionary literal is the list
  of its items, read through \<^const>\<open>map_of\<close>. The simulation harness
  (\<^verbatim>\<open>generate_fake_vitals\<close>, \<^verbatim>\<open>run_simulation\<close>) draws random numbers, sleeps and
  prints; it holds no decision logic and is not modelled.
\<close>

subsection \<open>Errors\<close>

text \<open>Subscripting a dictionary with a key it does not hold raises \<^verbatim>\<open>KeyError\<close>.\<close>

datatype py_error = KeyError string

subsection \<open>Base medical priority\<close>

text \<open>
  \<^verbatim>\<open>
  def base_medical_priority(emergency_type):
      priority_map = {"cardiac_arrest": 5, "stroke": 4, "severe_accident": 4,
                      "trauma": 3, "minor_injury": 1}
      return priority_map.get(emergency_type, 2)
  \<close>
\<close>

definition priority_map :: "(string \<times> int) list" where
  "priority_map =
     [(''cardiac_arrest'', 5),
      (''stroke'', 4),
      (''severe_accident'', 4),
      (''trauma'', 3),
      (''minor_injury'', 1)]"

definition base_medical_priority :: "string \<Rightarrow> int" where
  "base_medical_priority emergency_type =
     (case map_of priority_map emergency_type of
        Some v \<Rightarrow> v
      | None \<Rightarrow> 2)"

subsection \<open>Vital risk analysis\<close>

definition spo2_risk :: "int \<Rightarrow> int" where
  "spo2_risk spo2 =
     (if spo2 < 85 then 3
      else if spo2 < 90 then 2
      else if spo2 < 94 then 1
      else 0)"

definition heart_rate_risk :: "int \<Rightarrow> int" where
  "heart_rate_risk hr =
     (if hr < 40 \<or> hr > 130 then 2
      else if hr > 110 then 1
      else 0)"

definition deterioration_risk :: "int \<Rightarrow> int \<Rightarrow> int" where
  "deterioration_risk prev_spo2 curr_spo2 =
     (let drop = prev_spo2 - curr_spo2 in
      if drop \<ge> 5 then 2
      else if drop \<ge> 2 then 1
      else 0)"

definition vital_risk_score :: "int \<Rightarrow> int \<Rightarrow> int \<Rightarrow> int" where
  "vital_risk_score hr spo2 prev_spo2 =
     (let risk = spo2_risk spo2 + heart_rate_risk hr + deterioration_risk prev_spo2 spo2
      in min risk 5)"

subsection \<open>Time-to-hospital risk\<close>

definition time_to_hospital_risk :: "int \<Rightarrow> int" where
  "time_to_hospital_risk eta_minutes =
     (if eta_minutes > 15 then 2
      else if eta_minutes > 8 then 1
      else 0)"

subsection \<open>Final priority\<close>

definition calculate_priority :: "string \<Rightarrow> int \<Rightarrow> int \<Rightarrow> int \<Rightarrow> int \<Rightarrow> int" where
  "calculate_priority emergency_type hr spo2 prev_spo2 eta =
     (let priority_score =
            base_medical_priority emergency_type
            + vital_risk_score hr spo2 prev_spo2
            + time_to_hospital_risk eta
      in min priority_score 10)"

subsection \<open>Priority category\<close>

definition priority_category :: "int \<Rightarrow> string" where
  "priority_category score =
     (if score \<ge> 9 then ''CRITICAL''
      else if score \<ge> 7 then ''VERY HIGH''
      else if score \<ge> 5 then ''HIGH''
      else if score \<ge> 3 then ''MEDIUM''
      else ''LOW'')"

subsection \<open>Traffic signal decision\<close>

text \<open>
  \<^verbatim>\<open>
  def traffic_decision(priority_level):
      decisions = { ... }
      return decisions[priority_level]
  \<close>
  The subscript raises \<^verbatim>\<open>KeyError(priority_level)\<close> on a key that is not in the
  dictionary; that is the \<open>Inl\<close> branch.
\<close>

definition decisions :: "(string \<times> string) list" where
  "decisions =
     [(''CRITICAL'', ''Immediate green corridor (override all signals)''),
      (''VERY HIGH'', ''Green corridor with maximum preference''),
      (''HIGH'', ''Green at next signal cycle''),
      (''MEDIUM'', ''Partial priority at intersections''),
      (''LOW'', ''Normal traffic flow'')]"

definition traffic_decision :: "string \<Rightarrow> py_error + string" where
  "traffic_decision priority_level =
     (case map_of decisions priority_level of
        Some action \<Rightarrow> Inr action
      | None \<Rightarrow> Inl (KeyError priority_level))"

subsection \<open>The ordering of categories used by the specification\<close>

text \<open>
  The specification orders the five categories by severity, from LOW up to CRITICAL.
  \<open>severity_rank\<close> is that ordering as a number (a string that is no category has
  rank 0; no statement below depends on it). It is not part of the program.
\<close>

definition severity_rank :: "string \<Rightarrow> nat" where
  "severity_rank c =
     (if c = ''CRITICAL'' then 4
      else if c = ''VERY HIGH'' then 3
      else if c = ''HIGH'' then 2
      else if c = ''MEDIUM'' then 1
      else 0)"

section \<open>Bounds of the components\<close>

lemma base_medical_priority_cases:
  "base_medical_priority e \<in> {1, 2, 3, 4, 5}"
  by (simp add: base_medical_priority_def priority_map_def)

lemma base_medical_priority_bounds:
  "1 \<le> base_medical_priority e" "base_medical_priority e \<le> 5"
  using base_medical_priority_cases [of e] by auto

lemma spo2_risk_bounds: "0 \<le> spo2_risk s" "spo2_risk s \<le> 3"
  by (simp_all add: spo2_risk_def)

lemma heart_rate_risk_bounds: "0 \<le> heart_rate_risk hr" "heart_rate_risk hr \<le> 2"
  by (simp_all add: heart_rate_risk_def)

lemma deterioration_risk_bounds:
  "0 \<le> deterioration_risk p s" "deterioration_risk p s \<le> 2"
  by (simp_all add: deterioration_risk_def Let_def)

lemma vital_risk_score_bounds:
  "0 \<le> vital_risk_score hr s p" "vital_risk_score hr s p \<le> 5"
  using spo2_risk_bounds(1) [of s] heart_rate_risk_bounds(1) [of hr]
    deterioration_risk_bounds(1) [of p s]
  by (simp_all add: vital_risk_score_def Let_def)

lemma time_to_hospital_risk_bounds:
  "0 \<le> time_to_hospital_risk eta" "time_to_hospital_risk eta \<le> 2"
  by (simp_all add: time_to_hospital_risk_def)

section \<open>The claims\<close>

subsection \<open>C6: the severity lookup\<close>

text \<open>
  C6. The severity lookup returns the values of the fixed table: cardiac_arrest gives 5,
  stroke 4, severe_accident 4, trauma 3 and minor_injury 1. Every label that is not in
  the table gives the default 2; the lookup is \<^verbatim>\<open>dict.get\<close> with a default, so no
  label raises an error (the model is a total function into the integers).
\<close>

theorem base_medical_priority_table:
  "base_medical_priority ''cardiac_arrest'' = 5 \<and>
   base_medical_priority ''stroke'' = 4 \<and>
   base_medical_priority ''severe_accident'' = 4 \<and>
   base_medical_priority ''trauma'' = 3 \<and>
   base_medical_priority ''minor_injury'' = 1 \<and>
   (e \<notin> {''cardiac_arrest'', ''stroke'', ''severe_accident'', ''trauma'', ''minor_injury''}
      \<longrightarrow> base_medical_priority e = 2)"
  by (simp add: base_medical_priority_def priority_map_def)

theorem base_medical_priority_table_witness:
  "''unknown_label'' \<notin>
     {''cardiac_arrest'', ''stroke'', ''severe_accident'', ''trauma'', ''minor_injury''} \<and>
   base_medical_priority ''unknown_label'' = 2 \<and>
   base_medical_priority [] = 2"
  using base_medical_priority_table [where e = "''unknown_label''"]
    base_medical_priority_table [where e = "[]"]
  by simp

subsection \<open>C9: oxygen saturation risk\<close>

text \<open>
  C9. The SpO2 risk is 3 below 85, 2 from 85 up to but not including 90, 1 from 90 up to
  but not including 94, and 0 from 94 on. The risk does not increase with the saturation
  (for s1 \<le> s2 the risk of s1 is at least that of s2), and it decreases strictly from
  each band to the next: whenever a band boundary b (85, 90 or 94) lies between two
  saturations, s1 < b \<le> s2, the risk of s1 is strictly greater than that of s2.
\<close>

theorem spo2_risk_bands:
  "(s < 85 \<longrightarrow> spo2_risk s = 3) \<and>
   (85 \<le> s \<and> s < 90 \<longrightarrow> spo2_risk s = 2) \<and>
   (90 \<le> s \<and> s < 94 \<longrightarrow> spo2_risk s = 1) \<and>
   (94 \<le> s \<longrightarrow> spo2_risk s = 0) \<and>
   (s1 \<le> s2 \<longrightarrow> spo2_risk s1 \<ge> spo2_risk s2) \<and>
   (b \<in> {85, 90, 94} \<and> s1 < b \<and> b \<le> s2 \<longrightarrow> spo2_risk s1 > spo2_risk s2)"
  by (auto simp add: spo2_risk_def)

theorem spo2_risk_bands_witness:
  "spo2_risk 84 = 3 \<and> spo2_risk 85 = 2 \<and> spo2_risk 89 = 2 \<and> spo2_risk 90 = 1 \<and>
   spo2_risk 93 = 1 \<and> spo2_risk 94 = 0 \<and>
   (86::int) \<le> 88 \<and> spo2_risk 86 \<ge> spo2_risk 88 \<and>
   (89::int) < 90 \<and> (90::int) \<le> 90 \<and> spo2_risk 89 > spo2_risk 90"
  using spo2_risk_bands [where s = 84 and ?s1.0 = 86 and ?s2.0 = 88 and b = 85]
    spo2_risk_bands [where s = 85 and ?s1.0 = 89 and ?s2.0 = 90 and b = 90]
    spo2_risk_bands [where s = 89 and ?s1.0 = 0 and ?s2.0 = 0 and b = 0]
    spo2_risk_bands [where s = 90 and ?s1.0 = 0 and ?s2.0 = 0 and b = 0]
    spo2_risk_bands [where s = 93 and ?s1.0 = 0 and ?s2.0 = 0 and b = 0]
    spo2_risk_bands [where s = 94 and ?s1.0 = 0 and ?s2.0 = 0 and b = 0]
  by simp

subsection \<open>C7: heart-rate risk\<close>

text \<open>
  C7. For every integer hr the heart-rate risk is 2 when hr < 40 or hr > 130, 1 when
  110 < hr \<le> 130, and 0 otherwise (40 \<le> hr \<le> 110). The first test wins: a value above
  130 gives 2 although it is also above 110, so the result is 1 exactly when
  110 < hr \<le> 130.
\<close>

theorem heart_rate_risk_bands:
  "(hr < 40 \<or> hr > 130 \<longrightarrow> heart_rate_risk hr = 2) \<and>
   (110 < hr \<and> hr \<le> 130 \<longrightarrow> heart_rate_risk hr = 1) \<and>
   (\<not> (hr < 40 \<or> hr > 130) \<and> \<not> (110 < hr \<and> hr \<le> 130) \<longrightarrow> heart_rate_risk hr = 0) \<and>
   (hr > 130 \<and> hr > 110 \<longrightarrow> heart_rate_risk hr = 2) \<and>
   (heart_rate_risk hr = 1 \<longleftrightarrow> 110 < hr \<and> hr \<le> 130)"
  by (auto simp add: heart_rate_risk_def)

theorem heart_rate_risk_bands_witness:
  "heart_rate_risk 39 = 2 \<and> heart_rate_risk 131 = 2 \<and> heart_rate_risk 9999 = 2 \<and>
   heart_rate_risk 111 = 1 \<and> heart_rate_risk 130 = 1 \<and>
   heart_rate_risk 40 = 0 \<and> heart_rate_risk 110 = 0"
  using heart_rate_risk_bands [of 39] heart_rate_risk_bands [of 131]
    heart_rate_risk_bands [of 9999] heart_rate_risk_bands [of 111]
    heart_rate_risk_bands [of 130] heart_rate_risk_bands [of 40]
    heart_rate_risk_bands [of 110]
  by simp

subsection \<open>C8: deterioration risk\<close>

text \<open>
  C8. For all integers previous_spo2 and spo2, with drop = previous_spo2 - spo2, the
  deterioration risk is 2 when drop \<ge> 5, 1 when 2 \<le> drop < 5, and 0 otherwise. When
  the saturation improved (previous_spo2 < spo2, a negative drop) the risk is exactly
  0; the risk is never negative.
\<close>

theorem deterioration_risk_bands:
  "(prev - cur \<ge> 5 \<longrightarrow> deterioration_risk prev cur = 2) \<and>
   (2 \<le> prev - cur \<and> prev - cur < 5 \<longrightarrow> deterioration_risk prev cur = 1) \<and>
   (prev - cur < 2 \<longrightarrow> deterioration_risk prev cur = 0) \<and>
   (prev < cur \<longrightarrow> deterioration_risk prev cur = 0) \<and>
   0 \<le> deterioration_risk prev cur"
  by (auto simp add: deterioration_risk_def Let_def)

theorem deterioration_risk_bands_witness:
  "deterioration_risk 98 93 = 2 \<and> deterioration_risk 96 94 = 1 \<and>
   deterioration_risk 96 92 = 1 \<and> deterioration_risk 95 94 = 0 \<and>
   (90::int) < 97 \<and> deterioration_risk 90 97 = 0"
  using deterioration_risk_bands [of 98 93] deterioration_risk_bands [of 96 94]
    deterioration_risk_bands [of 96 92] deterioration_risk_bands [of 95 94]
    deterioration_risk_bands [of 90 97]
  by simp

subsection \<open>C2: the vital risk aggregate\<close>

text \<open>
  C2. For all integers hr, spo2 and prev_spo2 the vital risk aggregate is the sum of the
  SpO2 risk, the heart-rate risk and the deterioration risk, clamped to a maximum of 5.
  The raw sum is at most 7, and the aggregate never exceeds 5; when the three risks are
  maximal together (hr < 40 or hr > 130, spo2 < 85, drop \<ge> 5) the raw sum is 7 and
  the aggregate is 5.
\<close>

theorem vital_risk_score_clamped:
  "vital_risk_score hr spo2 prev =
     min (spo2_risk spo2 + heart_rate_risk hr + deterioration_risk prev spo2) 5 \<and>
   spo2_risk spo2 + heart_rate_risk hr + deterioration_risk prev spo2 \<le> 7 \<and>
   vital_risk_score hr spo2 prev \<le> 5 \<and>
   ((hr < 40 \<or> hr > 130) \<and> spo2 < 85 \<and> prev - spo2 \<ge> 5 \<longrightarrow>
      spo2_risk spo2 = 3 \<and> heart_rate_risk hr = 2 \<and> deterioration_risk prev spo2 = 2 \<and>
      spo2_risk spo2 + heart_rate_risk hr + deterioration_risk prev spo2 = 7 \<and>
      vital_risk_score hr spo2 prev = 5)"
proof -
  have raw: "spo2_risk spo2 + heart_rate_risk hr + deterioration_risk prev spo2 \<le> 7"
    using spo2_risk_bounds(2) [of spo2] heart_rate_risk_bounds(2) [of hr]
      deterioration_risk_bounds(2) [of prev spo2]
    by linarith
  have agg: "vital_risk_score hr spo2 prev =
      min (spo2_risk spo2 + heart_rate_risk hr + deterioration_risk prev spo2) 5"
    by (simp add: vital_risk_score_def Let_def)
  have top: "vital_risk_score hr spo2 prev \<le> 5"
    by (simp add: agg)
  have extreme: "spo2_risk spo2 = 3 \<and> heart_rate_risk hr = 2 \<and>
      deterioration_risk prev spo2 = 2 \<and>
      spo2_risk spo2 + heart_rate_risk hr + deterioration_risk prev spo2 = 7 \<and>
      vital_risk_score hr spo2 prev = 5"
    if "(hr < 40 \<or> hr > 130) \<and> spo2 < 85 \<and> prev - spo2 \<ge> 5"
  proof -
    from that have "spo2_risk spo2 = 3" by (simp add: spo2_risk_def)
    moreover from that have "heart_rate_risk hr = 2" by (auto simp add: heart_rate_risk_def)
    moreover from that have "deterioration_risk prev spo2 = 2"
      by (simp add: deterioration_risk_def Let_def)
    ultimately show ?thesis by (simp add: agg)
  qed
  from agg raw top extreme show ?thesis by blast
qed

theorem vital_risk_score_clamped_witness:
  "((150::int) < 40 \<or> (150::int) > 130) \<and> (80::int) < 85 \<and> (90::int) - 80 \<ge> 5 \<and>
   spo2_risk 80 + heart_rate_risk 150 + deterioration_risk 90 80 = 7 \<and>
   vital_risk_score 150 80 90 = 5 \<and>
   vital_risk_score 9999 0 100 = 5 \<and>
   vital_risk_score 30 84 89 = 5"
  using vital_risk_score_clamped [of 150 80 90] vital_risk_score_clamped [of 9999 0 100]
    vital_risk_score_clamped [of 30 84 89]
  by simp

subsection \<open>C1: the priority score lies in 0..10\<close>

text \<open>
  C1. For every emergency_type string and all integers heart_rate, spo2, previous_spo2
  and eta_minutes, calculate_priority returns the sum of the base severity, the vital
  risk and the transit risk, clamped to a maximum of 10, and the result lies in [0,10]
  whatever the magnitude of the inputs.
\<close>

theorem calculate_priority_in_range:
  "calculate_priority e hr spo2 prev eta =
     min (base_medical_priority e + vital_risk_score hr spo2 prev
          + time_to_hospital_risk eta) 10 \<and>
   0 \<le> calculate_priority e hr spo2 prev eta \<and>
   calculate_priority e hr spo2 prev eta \<le> 10"
proof -
  have sum: "calculate_priority e hr spo2 prev eta =
      min (base_medical_priority e + vital_risk_score hr spo2 prev
           + time_to_hospital_risk eta) 10"
    by (simp add: calculate_priority_def Let_def)
  have "0 \<le> base_medical_priority e + vital_risk_score hr spo2 prev
      + time_to_hospital_risk eta"
    using base_medical_priority_bounds(1) [of e] vital_risk_score_bounds(1) [of hr spo2 prev]
      time_to_hospital_risk_bounds(1) [of eta]
    by linarith
  then have "0 \<le> calculate_priority e hr spo2 prev eta"
    by (simp add: sum)
  moreover have "calculate_priority e hr spo2 prev eta \<le> 10"
    by (simp add: sum)
  ultimately show ?thesis using sum by blast
qed

text \<open>The saturation at an extreme input: a heart rate of 9999.\<close>

lemma calculate_priority_extreme_heart_rate:
  "calculate_priority ''cardiac_arrest'' 9999 80 90 20 = 10"
  by (simp add: calculate_priority_def base_medical_priority_def priority_map_def
      vital_risk_score_def spo2_risk_def heart_rate_risk_def deterioration_risk_def
      time_to_hospital_risk_def Let_def)

subsection \<open>C10: the priority score is at least 1\<close>

text \<open>
  C10. For every emergency_type string and all integer vitals and ETA, calculate_priority
  returns at least 1: the base severity is at least 1 (the smallest table value is 1, the
  default for an unknown label is 2) and the vital risk and the transit risk are not
  negative. A score of 0 is not reachable through calculate_priority.
\<close>

theorem calculate_priority_at_least_one:
  "1 \<le> base_medical_priority e \<and>
   0 \<le> vital_risk_score hr spo2 prev \<and>
   0 \<le> time_to_hospital_risk eta \<and>
   1 \<le> calculate_priority e hr spo2 prev eta \<and>
   calculate_priority e hr spo2 prev eta \<noteq> 0"
proof -
  have "1 \<le> base_medical_priority e + vital_risk_score hr spo2 prev
      + time_to_hospital_risk eta"
    using base_medical_priority_bounds(1) [of e] vital_risk_score_bounds(1) [of hr spo2 prev]
      time_to_hospital_risk_bounds(1) [of eta]
    by linarith
  then have "1 \<le> calculate_priority e hr spo2 prev eta"
    by (simp add: calculate_priority_def Let_def)
  then show ?thesis
    using base_medical_priority_bounds(1) [of e] vital_risk_score_bounds(1) [of hr spo2 prev]
      time_to_hospital_risk_bounds(1) [of eta]
    by simp
qed

text \<open>The minimum is attained: a minor injury with normal vitals and a short trip.\<close>

lemma calculate_priority_minimum_attained:
  "calculate_priority ''minor_injury'' 75 97 97 5 = 1"
  by (simp add: calculate_priority_def base_medical_priority_def priority_map_def
      vital_risk_score_def spo2_risk_def heart_rate_risk_def deterioration_risk_def
      time_to_hospital_risk_def Let_def)

subsection \<open>C3: the category mapper\<close>

text \<open>
  C3. The category mapper is a total function of the score, read from the highest band
  down: a score of 9 or more is CRITICAL, of 7 or more VERY HIGH, of 5 or more HIGH, of 3
  or more MEDIUM, and anything lower is LOW. Every score (so every score in [0,10]) gets
  exactly one of the five categories, which are pairwise different, and the mapping is
  monotonic: a lower score never gets a more severe category.
\<close>

theorem priority_category_bands:
  "(9 \<le> s \<longrightarrow> priority_category s = ''CRITICAL'') \<and>
   (7 \<le> s \<and> s < 9 \<longrightarrow> priority_category s = ''VERY HIGH'') \<and>
   (5 \<le> s \<and> s < 7 \<longrightarrow> priority_category s = ''HIGH'') \<and>
   (3 \<le> s \<and> s < 5 \<longrightarrow> priority_category s = ''MEDIUM'') \<and>
   (s < 3 \<longrightarrow> priority_category s = ''LOW'') \<and>
   priority_category s \<in> {''CRITICAL'', ''VERY HIGH'', ''HIGH'', ''MEDIUM'', ''LOW''} \<and>
   distinct [''CRITICAL'', ''VERY HIGH'', ''HIGH'', ''MEDIUM'', ''LOW''] \<and>
   (s1 \<le> s2 \<longrightarrow>
      severity_rank (priority_category s1) \<le> severity_rank (priority_category s2))"
proof -
  have bands:
    "(9 \<le> s \<longrightarrow> priority_category s = ''CRITICAL'') \<and>
     (7 \<le> s \<and> s < 9 \<longrightarrow> priority_category s = ''VERY HIGH'') \<and>
     (5 \<le> s \<and> s < 7 \<longrightarrow> priority_category s = ''HIGH'') \<and>
     (3 \<le> s \<and> s < 5 \<longrightarrow> priority_category s = ''MEDIUM'') \<and>
     (s < 3 \<longrightarrow> priority_category s = ''LOW'')"
    by (simp add: priority_category_def)
  have range: "priority_category s \<in> {''CRITICAL'', ''VERY HIGH'', ''HIGH'', ''MEDIUM'', ''LOW''}"
    by (simp add: priority_category_def)
  have different: "distinct [''CRITICAL'', ''VERY HIGH'', ''HIGH'', ''MEDIUM'', ''LOW'']"
    by simp
  have rank: "severity_rank (priority_category x) =
      (if 9 \<le> x then 4 else if 7 \<le> x then 3 else if 5 \<le> x then 2 else if 3 \<le> x then 1 else 0)"
    for x
    by (simp add: priority_category_def severity_rank_def)
  have mono: "s1 \<le> s2 \<longrightarrow>
      severity_rank (priority_category s1) \<le> severity_rank (priority_category s2)"
    by (simp add: rank)
  from bands range different mono show ?thesis by blast
qed

theorem priority_category_bands_witness:
  "priority_category 10 = ''CRITICAL'' \<and> priority_category 9 = ''CRITICAL'' \<and>
   priority_category 8 = ''VERY HIGH'' \<and> priority_category 7 = ''VERY HIGH'' \<and>
   priority_category 6 = ''HIGH'' \<and> priority_category 5 = ''HIGH'' \<and>
   priority_category 4 = ''MEDIUM'' \<and> priority_category 3 = ''MEDIUM'' \<and>
   priority_category 2 = ''LOW'' \<and> priority_category 1 = ''LOW'' \<and>
   priority_category 0 = ''LOW'' \<and>
   (4::int) \<le> 9 \<and>
   severity_rank (priority_category 4) \<le> severity_rank (priority_category 9)"
  using priority_category_bands [where s = 10 and ?s1.0 = 4 and ?s2.0 = 9]
    priority_category_bands [where s = 9 and ?s1.0 = 0 and ?s2.0 = 0]
    priority_category_bands [where s = 8 and ?s1.0 = 0 and ?s2.0 = 0]
    priority_category_bands [where s = 7 and ?s1.0 = 0 and ?s2.0 = 0]
    priority_category_bands [where s = 6 and ?s1.0 = 0 and ?s2.0 = 0]
    priority_category_bands [where s = 5 and ?s1.0 = 0 and ?s2.0 = 0]
    priority_category_bands [where s = 4 and ?s1.0 = 0 and ?s2.0 = 0]
    priority_category_bands [where s = 3 and ?s1.0 = 0 and ?s2.0 = 0]
    priority_category_bands [where s = 2 and ?s1.0 = 0 and ?s2.0 = 0]
    priority_category_bands [where s = 1 and ?s1.0 = 0 and ?s2.0 = 0]
    priority_category_bands [where s = 0 and ?s1.0 = 0 and ?s2.0 = 0]
  by simp

subsection \<open>C4: the action mapper\<close>

text \<open>
  C4. The action mapper is a lookup over the five categories: for each one it returns
  the fixed advisory string of the literal table, each of them non-empty and different
  from the other four, so the mapping is one-to-one from the five categories onto the
  five actions. On a string that is none of the five categories it fails: it raises
  KeyError and returns no value.
\<close>

theorem traffic_decision_table:
  "traffic_decision ''CRITICAL'' = Inr ''Immediate green corridor (override all signals)'' \<and>
   traffic_decision ''VERY HIGH'' = Inr ''Green corridor with maximum preference'' \<and>
   traffic_decision ''HIGH'' = Inr ''Green at next signal cycle'' \<and>
   traffic_decision ''MEDIUM'' = Inr ''Partial priority at intersections'' \<and>
   traffic_decision ''LOW'' = Inr ''Normal traffic flow'' \<and>
   (c \<in> {''CRITICAL'', ''VERY HIGH'', ''HIGH'', ''MEDIUM'', ''LOW''} \<longrightarrow>
      (\<exists>a. traffic_decision c = Inr a \<and> a \<noteq> [])) \<and>
   (c \<notin> {''CRITICAL'', ''VERY HIGH'', ''HIGH'', ''MEDIUM'', ''LOW''} \<longrightarrow>
      traffic_decision c = Inl (KeyError c)) \<and>
   inj_on traffic_decision {''CRITICAL'', ''VERY HIGH'', ''HIGH'', ''MEDIUM'', ''LOW''} \<and>
   traffic_decision ` {''CRITICAL'', ''VERY HIGH'', ''HIGH'', ''MEDIUM'', ''LOW''} =
     Inr ` {''Immediate green corridor (override all signals)'',
            ''Green corridor with maximum preference'',
            ''Green at next signal cycle'',
            ''Partial priority at intersections'',
            ''Normal traffic flow''}"
proof -
  have crit: "traffic_decision ''CRITICAL'' =
      Inr ''Immediate green corridor (override all signals)''"
    by (simp add: traffic_decision_def decisions_def)
  have very: "traffic_decision ''VERY HIGH'' = Inr ''Green corridor with maximum preference''"
    by (simp add: traffic_decision_def decisions_def)
  have high: "traffic_decision ''HIGH'' = Inr ''Green at next signal cycle''"
    by (simp add: traffic_decision_def decisions_def)
  have med: "traffic_decision ''MEDIUM'' = Inr ''Partial priority at intersections''"
    by (simp add: traffic_decision_def decisions_def)
  have low: "traffic_decision ''LOW'' = Inr ''Normal traffic flow''"
    by (simp add: traffic_decision_def decisions_def)
  have inside: "c \<in> {''CRITICAL'', ''VERY HIGH'', ''HIGH'', ''MEDIUM'', ''LOW''} \<longrightarrow>
      (\<exists>a. traffic_decision c = Inr a \<and> a \<noteq> [])"
    using crit very high med low by auto
  have outside: "c \<notin> {''CRITICAL'', ''VERY HIGH'', ''HIGH'', ''MEDIUM'', ''LOW''} \<longrightarrow>
      traffic_decision c = Inl (KeyError c)"
    by (simp add: traffic_decision_def decisions_def)
  have inj: "inj_on traffic_decision {''CRITICAL'', ''VERY HIGH'', ''HIGH'', ''MEDIUM'', ''LOW''}"
    by (simp add: crit very high med low)
  have img: "traffic_decision ` {''CRITICAL'', ''VERY HIGH'', ''HIGH'', ''MEDIUM'', ''LOW''} =
      Inr ` {''Immediate green corridor (override all signals)'',
             ''Green corridor with maximum preference'',
             ''Green at next signal cycle'',
             ''Partial priority at intersections'',
             ''Normal traffic flow''}"
    by (simp add: crit very high med low)
  from crit very high med low inside outside inj img show ?thesis by blast
qed

theorem traffic_decision_table_witness:
  "''HIGH'' \<in> {''CRITICAL'', ''VERY HIGH'', ''HIGH'', ''MEDIUM'', ''LOW''} \<and>
   traffic_decision ''HIGH'' = Inr ''Green at next signal cycle'' \<and>
   ''URGENT'' \<notin> {''CRITICAL'', ''VERY HIGH'', ''HIGH'', ''MEDIUM'', ''LOW''} \<and>
   traffic_decision ''URGENT'' = Inl (KeyError ''URGENT'') \<and>
   traffic_decision ''critical'' = Inl (KeyError ''critical'')"
  using traffic_decision_table [where c = "''HIGH''"]
    traffic_decision_table [where c = "''URGENT''"]
    traffic_decision_table [where c = "''critical''"]
  by simp

subsection \<open>C5: a concrete scenario\<close>

text \<open>
  C5. For emergency_type "cardiac_arrest", heart_rate 150, spo2 80, previous_spo2 90 and
  eta 20: the base severity is 5, the SpO2 risk 3, the heart-rate risk 2, the
  deterioration risk 2, the vital aggregate 5 (the raw sum 7, clamped), the transit risk
  2, the raw sum 12, the score 10 and the category CRITICAL.
\<close>

theorem scenario_cardiac_arrest:
  "base_medical_priority ''cardiac_arrest'' = 5 \<and>
   spo2_risk 80 = 3 \<and>
   heart_rate_risk 150 = 2 \<and>
   deterioration_risk 90 80 = 2 \<and>
   spo2_risk 80 + heart_rate_risk 150 + deterioration_risk 90 80 = 7 \<and>
   vital_risk_score 150 80 90 = 5 \<and>
   time_to_hospital_risk 20 = 2 \<and>
   base_medical_priority ''cardiac_arrest'' + vital_risk_score 150 80 90
     + time_to_hospital_risk 20 = 12 \<and>
   calculate_priority ''cardiac_arrest'' 150 80 90 20 = 10 \<and>
   priority_category (calculate_priority ''cardiac_arrest'' 150 80 90 20) = ''CRITICAL''"
  by (simp add: calculate_priority_def base_medical_priority_def priority_map_def
      vital_risk_score_def spo2_risk_def heart_rate_risk_def deterioration_risk_def
      time_to_hospital_risk_def priority_category_def Let_def)

end
